theory Spec2Isabelle
  imports Complex_Main
begin

section \<open>Python values and exceptions\<close>

text \<open>
  The tools of \<^verbatim>\<open>global_tools.py\<close> pass dynamically typed values around: the argument
  of \<^verbatim>\<open>extract_message\<close> may be any object, \<^verbatim>\<open>json.loads\<close> returns
  \<^verbatim>\<open>None\<close>, booleans, numbers, strings, lists and dicts, and a socket reply is a list of
  such values. They are one datatype. A dict keeps its insertion order and has one entry per
  key, so it is an association list whose keys are distinct. A Python \<^verbatim>\<open>str\<close> is a
  \<^typ>\<open>string\<close>, hence restricted to the code points below 256; a \<^verbatim>\<open>float\<close> is the
  real number it stands for (rounding, overflow and the non-finite floats are not modelled).
\<close>

datatype pyval =
    PNone
  | PBool bool
  | PInt int
  | PFloat real
  | PStr string
  | PList "pyval list"
  | PDict "(string \<times> pyval) list"

text \<open>
  An exception is its class and the text \<^verbatim>\<open>str(e)\<close>. Every class below derives from
  \<^verbatim>\<open>Exception\<close>, so \<^verbatim>\<open>except Exception\<close> catches each of them. \<open>TimeoutError\<close> is the
  built-in class that \<^verbatim>\<open>except TimeoutError\<close> of line 100 names (the module imports no
  other class of that name); \<open>OtherError\<close> stands for the classes of the external libraries
  (socketio, arxiv, requests), named by the string. Among them is
  \<^verbatim>\<open>socketio.exceptions.TimeoutError\<close>, which \<^verbatim>\<open>SimpleClient.receive\<close> raises when its
  wait times out: it derives from \<^verbatim>\<open>SocketIOError\<close> and \<^verbatim>\<open>Exception\<close>, not from the
  built-in TimeoutError, and so do the other library classes. For the exceptions the
  interpreter itself raises the message is abbreviated.
\<close>

datatype exn_class =
    TimeoutError
  | JSONDecodeError
  | TypeError
  | AttributeError
  | KeyError
  | IndexError
  | OtherError string

datatype exn = Exn exn_class string

fun class_of :: "exn \<Rightarrow> exn_class" where
  "class_of (Exn c m) = c"

text \<open>\<^verbatim>\<open>str(e)\<close>\<close>

fun str_exn :: "exn \<Rightarrow> string" where
  "str_exn (Exn c m) = m"

text \<open>\<^verbatim>\<open>len(x)\<close>: defined on strings, lists and dicts, a TypeError elsewhere.\<close>

fun py_len :: "pyval \<Rightarrow> exn + nat" where
  "py_len (PStr s) = Inr (length s)"
| "py_len (PList xs) = Inr (length xs)"
| "py_len (PDict kvs) = Inr (length kvs)"
| "py_len v = Inl (Exn TypeError ''object has no len()'')"

text \<open>\<^verbatim>\<open>x.values()\<close>: only a dict has the method.\<close>

fun py_values :: "pyval \<Rightarrow> exn + pyval list" where
  "py_values (PDict kvs) = Inr (map snd kvs)"
| "py_values v = Inl (Exn AttributeError ''object has no attribute values'')"

text \<open>\<^verbatim>\<open>next(it, None)\<close> on the items a generator yields.\<close>

fun next_or_None :: "pyval list \<Rightarrow> pyval" where
  "next_or_None [] = PNone"
| "next_or_None (v # vs) = v"

text \<open>\<^verbatim>\<open>s.startswith(p)\<close>\<close>

definition startswith :: "string \<Rightarrow> string \<Rightarrow> bool" where
  "startswith s p = (take (length p) s = p)"

text \<open>\<^verbatim>\<open>d[k] = v\<close> on a dict: an existing key keeps its place and takes the new value.\<close>

fun dict_setitem :: "(string \<times> pyval) list \<Rightarrow> string \<Rightarrow> pyval \<Rightarrow> (string \<times> pyval) list" where
  "dict_setitem [] k v = [(k, v)]"
| "dict_setitem ((k', v') # kvs) k v =
     (if k' = k then (k, v) # kvs else (k', v') # dict_setitem kvs k v)"

section \<open>The JSON decoder\<close>

text \<open>
  \<^verbatim>\<open>json.loads\<close> belongs to the Python standard library. It is modelled as a lexer that
  runs over the characters once, followed by a parser that runs over the tokens once with an
  explicit stack of the open arrays and objects. The decoder accepts the JSON grammar of
  RFC 8259 as Python does: white space is blank, tab, line feed and carriage return; a string
  holds no control character; of two members with the same key the last one wins; anything
  but white space after the value is an error. Outside the model: the literals
  \<^verbatim>\<open>NaN\<close> and \<^verbatim>\<open>Infinity\<close>, escapes \<^verbatim>\<open>\uXXXX\<close> of a code point above 255
  (both rejected here), the recursion limit, and the position a JSONDecodeError reports.
\<close>

datatype token =
    TLBrace | TRBrace | TLBracket | TRBracket | TColon | TComma
  | TString string
  | TAtom string

datatype lexmode =
    LDefault
  | LAtom string
  | LStr string
  | LEsc string
  | LUni string string

definition is_ws :: "char \<Rightarrow> bool" where
  "is_ws c = (c = CHR '' '' \<or> c = CHR 0x09 \<or> c = CHR 0x0A \<or> c = CHR 0x0D)"

definition punct :: "char \<Rightarrow> token option" where
  "punct c =
     (if c = CHR ''{'' then Some TLBrace
      else if c = CHR ''}'' then Some TRBrace
      else if c = CHR ''['' then Some TLBracket
      else if c = CHR '']'' then Some TRBracket
      else if c = CHR '':'' then Some TColon
      else if c = CHR '','' then Some TComma
      else None)"

definition is_digit :: "char \<Rightarrow> bool" where
  "is_digit c = (48 \<le> (of_char c :: nat) \<and> (of_char c :: nat) \<le> 57)"

definition digit_val :: "char \<Rightarrow> nat" where
  "digit_val c = of_char c - 48"

definition hex_val :: "char \<Rightarrow> nat option" where
  "hex_val c =
     (let n = (of_char c :: nat) in
      if 48 \<le> n \<and> n \<le> 57 then Some (n - 48)
      else if 65 \<le> n \<and> n \<le> 70 then Some (n - 55)
      else if 97 \<le> n \<and> n \<le> 102 then Some (n - 87)
      else None)"

text \<open>The character a one-letter escape stands for.\<close>

definition escape_char :: "char \<Rightarrow> char option" where
  "escape_char c =
     (if c = CHR 0x22 then Some (CHR 0x22)
      else if c = CHR 0x5C then Some (CHR 0x5C)
      else if c = CHR ''/'' then Some (CHR ''/'')
      else if c = CHR ''b'' then Some (CHR 0x08)
      else if c = CHR ''f'' then Some (CHR 0x0C)
      else if c = CHR ''n'' then Some (CHR 0x0A)
      else if c = CHR ''r'' then Some (CHR 0x0D)
      else if c = CHR ''t'' then Some (CHR 0x09)
      else None)"

text \<open>The code point of four hexadecimal digits, when it is a character of the model.\<close>

definition unicode_char :: "string \<Rightarrow> char option" where
  "unicode_char hs =
     (case those (map hex_val hs) of
        None \<Rightarrow> None
      | Some ds \<Rightarrow>
          (let n = foldl (\<lambda>a d. 16 * a + d) 0 ds
           in if n < 256 then Some (char_of n) else None))"

text \<open>
  The lexer: \<open>toks\<close> holds the tokens read so far, the mode what the current characters
  belong to. An atom is a maximal run of characters that are neither white space, nor
  punctuation, nor a quote: a number or one of the three literals.
\<close>

fun lex :: "lexmode \<Rightarrow> token list \<Rightarrow> string \<Rightarrow> token list option" where
  "lex LDefault toks [] = Some toks"
| "lex (LAtom a) toks [] = Some (toks @ [TAtom a])"
| "lex (LStr s) toks [] = None"
| "lex (LEsc s) toks [] = None"
| "lex (LUni s hs) toks [] = None"
| "lex LDefault toks (c # cs) =
     (if is_ws c then lex LDefault toks cs
      else if c = CHR 0x22 then lex (LStr []) toks cs
      else case punct c of
        Some t \<Rightarrow> lex LDefault (toks @ [t]) cs
      | None \<Rightarrow> lex (LAtom [c]) toks cs)"
| "lex (LAtom a) toks (c # cs) =
     (if is_ws c then lex LDefault (toks @ [TAtom a]) cs
      else if c = CHR 0x22 then lex (LStr []) (toks @ [TAtom a]) cs
      else case punct c of
        Some t \<Rightarrow> lex LDefault (toks @ [TAtom a, t]) cs
      | None \<Rightarrow> lex (LAtom (a @ [c])) toks cs)"
| "lex (LStr s) toks (c # cs) =
     (if c = CHR 0x22 then lex LDefault (toks @ [TString s]) cs
      else if c = CHR 0x5C then lex (LEsc s) toks cs
      else if (of_char c :: nat) < 32 then None
      else lex (LStr (s @ [c])) toks cs)"
| "lex (LEsc s) toks (c # cs) =
     (if c = CHR ''u'' then lex (LUni s []) toks cs
      else case escape_char c of
        Some e \<Rightarrow> lex (LStr (s @ [e])) toks cs
      | None \<Rightarrow> None)"
| "lex (LUni s hs) toks (c # cs) =
     (if length hs < 3 then lex (LUni s (hs @ [c])) toks cs
      else case unicode_char (hs @ [c]) of
        Some u \<Rightarrow> lex (LStr (s @ [u])) toks cs
      | None \<Rightarrow> None)"

text \<open>
  Numbers: \<^verbatim>\<open>-?(0|[1-9][0-9]*)(\.[0-9]+)?([eE][-+]?[0-9]+)?\<close>. Without fraction and exponent
  the number is an \<^verbatim>\<open>int\<close>, otherwise a \<^verbatim>\<open>float\<close>.
\<close>

definition digits_val :: "string \<Rightarrow> nat" where
  "digits_val ds = foldl (\<lambda>a c. 10 * a + digit_val c) 0 ds"

definition int_part_ok :: "string \<Rightarrow> bool" where
  "int_part_ok ds = (ds \<noteq> [] \<and> list_all is_digit ds \<and> (length ds = 1 \<or> hd ds \<noteq> CHR ''0''))"

text \<open>The exponent after \<^verbatim>\<open>e\<close> or \<^verbatim>\<open>E\<close>: an optional sign and at least one digit.\<close>

definition exponent_val :: "string \<Rightarrow> int option" where
  "exponent_val s =
     (let (neg, ds) =
        (case s of
           c # r \<Rightarrow> if c = CHR ''-'' then (True, r) else if c = CHR ''+'' then (False, r) else (False, s)
         | [] \<Rightarrow> (False, s))
      in if ds \<noteq> [] \<and> list_all is_digit ds
         then Some (if neg then - int (digits_val ds) else int (digits_val ds))
         else None)"

definition scale10 :: "real \<Rightarrow> int \<Rightarrow> real" where
  "scale10 x e = (if 0 \<le> e then x * 10 ^ nat e else x / 10 ^ nat (- e))"

definition number_value :: "string \<Rightarrow> pyval option" where
  "number_value s =
     (let (neg, body) = (case s of c # r \<Rightarrow> if c = CHR ''-'' then (True, r) else (False, s) | [] \<Rightarrow> (False, s));
          ip = takeWhile is_digit body;
          rest = dropWhile is_digit body;
          (fp, rest') =
            (case rest of
               c # r \<Rightarrow> if c = CHR ''.'' then (Some (takeWhile is_digit r), dropWhile is_digit r)
                        else (None, rest)
             | [] \<Rightarrow> (None, rest));
          ex =
            (case rest' of
               [] \<Rightarrow> Some None
             | c # r \<Rightarrow> if c = CHR ''e'' \<or> c = CHR ''E'' then map_option Some (exponent_val r) else None);
          sign = (\<lambda>x :: real. if neg then - x else x)
      in if \<not> int_part_ok ip \<or> fp = Some [] then None
         else case ex of
           None \<Rightarrow> None
         | Some e \<Rightarrow>
             (if fp = None \<and> e = None
              then Some (PInt (if neg then - int (digits_val ip) else int (digits_val ip)))
              else
                (let fd = (case fp of None \<Rightarrow> [] | Some ds \<Rightarrow> ds);
                     mant = real (digits_val (ip @ fd));
                     ev = (case e of None \<Rightarrow> 0 | Some k \<Rightarrow> k)
                 in Some (PFloat (sign (scale10 mant (ev - int (length fd))))))))"

definition atom_value :: "string \<Rightarrow> pyval option" where
  "atom_value a =
     (if a = ''null'' then Some PNone
      else if a = ''true'' then Some (PBool True)
      else if a = ''false'' then Some (PBool False)
      else number_value a)"

text \<open>
  The parser. A frame is an open array with its items, or an open object with its members
  and the key whose value is being read.
\<close>

datatype frame =
    FArr "pyval list"
  | FObj "(string \<times> pyval) list" string

datatype expect =
    ExpValue
  | ExpValueOrEnd
  | ExpKeyOrEnd
  | ExpKey
  | ExpColon
  | ExpCommaOrEnd
  | Finished pyval

text \<open>A value is complete: it is the result, or goes into the innermost open container.\<close>

fun complete :: "pyval \<Rightarrow> frame list \<Rightarrow> frame list \<times> expect" where
  "complete v [] = ([], Finished v)"
| "complete v (FArr xs # st) = (FArr (xs @ [v]) # st, ExpCommaOrEnd)"
| "complete v (FObj kvs k # st) = (FObj (dict_setitem kvs k v) k # st, ExpCommaOrEnd)"

fun start_value :: "token \<Rightarrow> frame list \<Rightarrow> (frame list \<times> expect) option" where
  "start_value TLBrace st = Some (FObj [] [] # st, ExpKeyOrEnd)"
| "start_value TLBracket st = Some (FArr [] # st, ExpValueOrEnd)"
| "start_value (TString s) st = Some (complete (PStr s) st)"
| "start_value (TAtom a) st = map_option (\<lambda>v. complete v st) (atom_value a)"
| "start_value t st = None"

fun parse_step :: "frame list \<times> expect \<Rightarrow> token \<Rightarrow> (frame list \<times> expect) option" where
  "parse_step (st, ExpValue) t = start_value t st"
| "parse_step (FArr xs # st, ExpValueOrEnd) TRBracket = Some (complete (PList xs) st)"
| "parse_step (st, ExpValueOrEnd) t = start_value t st"
| "parse_step (FObj kvs k # st, ExpKeyOrEnd) TRBrace = Some (complete (PDict kvs) st)"
| "parse_step (FObj kvs k # st, ExpKeyOrEnd) (TString s) = Some (FObj kvs s # st, ExpColon)"
| "parse_step (FObj kvs k # st, ExpKey) (TString s) = Some (FObj kvs s # st, ExpColon)"
| "parse_step (st, ExpColon) TColon = Some (st, ExpValue)"
| "parse_step (FArr xs # st, ExpCommaOrEnd) TComma = Some (FArr xs # st, ExpValue)"
| "parse_step (FArr xs # st, ExpCommaOrEnd) TRBracket = Some (complete (PList xs) st)"
| "parse_step (FObj kvs k # st, ExpCommaOrEnd) TComma = Some (FObj kvs k # st, ExpKey)"
| "parse_step (FObj kvs k # st, ExpCommaOrEnd) TRBrace = Some (complete (PDict kvs) st)"
| "parse_step s t = None"

fun parse_tokens :: "frame list \<times> expect \<Rightarrow> token list \<Rightarrow> pyval option" where
  "parse_tokens (st, Finished v) [] = (if st = [] then Some v else None)"
| "parse_tokens s [] = None"
| "parse_tokens s (t # ts) =
     (case parse_step s t of None \<Rightarrow> None | Some s' \<Rightarrow> parse_tokens s' ts)"

definition json_loads :: "string \<Rightarrow> exn + pyval" where
  "json_loads s =
     (case lex LDefault [] s of
        None \<Rightarrow> Inl (Exn JSONDecodeError ''invalid JSON'')
      | Some toks \<Rightarrow>
          (case parse_tokens ([], ExpValue) toks of
             None \<Rightarrow> Inl (Exn JSONDecodeError ''invalid JSON'')
           | Some v \<Rightarrow> Inr v))"

section \<open>The state outside the tools\<close>

text \<open>
  The envelope of a feedback request, as \<^verbatim>\<open>_run\<close> builds it from the classes of
  \<^verbatim>\<open>models.sockets\<close> (\<open>msg_text\<close> is the field \<^verbatim>\<open>text\<close>).
\<close>

datatype SocketEvents = MESSAGE

record Message =
  chunkId :: string
  msg_text :: pyval
  first :: bool
  tokens :: int
  timestamp :: real
  single :: bool

record SocketMessage =
  room :: string
  authorName :: string
  message :: Message
  isFeedback :: bool

text \<open>
  What has left through the socket: a call of \<^verbatim>\<open>send(client, event, message, mode)\<close>
  that returned, or a call of \<^verbatim>\<open>client.emit(event, data)\<close> that returned.
\<close>

datatype wire_event =
    Sent SocketEvents SocketMessage string
  | Emitted string "(string \<times> pyval) list"

text \<open>
  The effects of a call: the events on the wire, the exceptions handed to
  \<^verbatim>\<open>logging.exception\<close>, and the lines printed.
\<close>

record world =
  wire :: "wire_event list"
  logged :: "exn list"
  stdout :: "string list"

section \<open>CustomHumanInput\<close>

text \<open>The body of the \<^verbatim>\<open>try\<close> block of \<^verbatim>\<open>extract_message\<close> (lines 42 to 48).\<close>

definition extract_message_try :: "pyval \<Rightarrow> exn + pyval" where
  "extract_message_try text =
     (case text of
        PStr s \<Rightarrow>
          if startswith s ''{'' then
            (case json_loads s of
               Inl e \<Rightarrow> Inl e
             | Inr text_json \<Rightarrow>
                 (case py_len text_json of
                    Inl e \<Rightarrow> Inl e
                  | Inr n \<Rightarrow>
                      if n > 1 then Inr text
                      else
                        (case py_values text_json of
                           Inl e \<Rightarrow> Inl e
                         | Inr values \<Rightarrow>
                             Inr (next_or_None (filter (\<lambda>value. value \<noteq> PNone) values)))))
          else Inr text
      | _ \<Rightarrow> Inr text)"

text \<open>
  \<^verbatim>\<open>extract_message\<close>: an exception of the body is logged and the argument returned
  (lines 49 to 51).
\<close>

definition extract_message :: "pyval \<Rightarrow> world \<Rightarrow> (exn + pyval) \<times> world" where
  "extract_message text w =
     (case extract_message_try text of
        Inr v \<Rightarrow> (Inr v, w)
      | Inl e \<Rightarrow> (Inr text, w\<lparr>logged := logged w @ [e]\<rparr>))"

text \<open>
  \<^verbatim>\<open>x[i]\<close> for an index \<open>i \<ge> 0\<close>. A dict of the model has string keys only, so an
  integer is never one of its keys.
\<close>

fun py_getitem :: "pyval \<Rightarrow> nat \<Rightarrow> exn + pyval" where
  "py_getitem (PList xs) i =
     (if i < length xs then Inr (xs ! i) else Inl (Exn IndexError ''list index out of range''))"
| "py_getitem (PStr s) i =
     (if i < length s then Inr (PStr [s ! i]) else Inl (Exn IndexError ''string index out of range''))"
| "py_getitem (PDict kvs) i = Inl (Exn KeyError ''integer key'')"
| "py_getitem v i = Inl (Exn TypeError ''object is not subscriptable'')"

text \<open>
  What the surroundings do during one call of \<^verbatim>\<open>_run\<close>: the values of
  \<^verbatim>\<open>str(uuid4())\<close> and \<^verbatim>\<open>datetime.now().timestamp()\<close>; whether building the
  envelope and \<^verbatim>\<open>send\<close> (of \<^verbatim>\<open>messaging.send_message_to_socket\<close>) raise; what
  \<^verbatim>\<open>socket_client.receive()\<close> returns or raises; whether \<^verbatim>\<open>socket_client.emit\<close>
  raises.
\<close>

record socket_env =
  uuid4_str :: string
  now_timestamp :: real
  send_raises :: "SocketMessage \<Rightarrow> exn option"
  receive_result :: "exn + pyval"
  emit_raises :: "string \<Rightarrow> (string \<times> pyval) list \<Rightarrow> exn option"

record CustomHumanInput =
  session_id :: string

text \<open>
  The \<^verbatim>\<open>SocketMessage\<close> of lines 80 to 92, \<open>msg\<close> being what
  \<^verbatim>\<open>extract_message\<close> returned.
\<close>

definition feedback_request :: "CustomHumanInput \<Rightarrow> socket_env \<Rightarrow> pyval \<Rightarrow> SocketMessage" where
  "feedback_request self env msg =
     \<lparr>room = session_id self,
      authorName = ''system'',
      message =
        \<lparr>chunkId = uuid4_str env,
         msg_text = msg,
         first = True,
         tokens = 1,
         timestamp = now_timestamp env * 1000,
         single = True\<rparr>,
      isFeedback = True\<rparr>"

text \<open>The \<^verbatim>\<open>try\<close> block of \<^verbatim>\<open>_run\<close> (lines 77 to 99).\<close>

definition CustomHumanInput_run_try ::
  "CustomHumanInput \<Rightarrow> socket_env \<Rightarrow> pyval \<Rightarrow> world \<Rightarrow> (exn + pyval) \<times> world" where
  "CustomHumanInput_run_try self env text w =
     (case extract_message text w of
        (Inl e, w1) \<Rightarrow> (Inl e, w1)
      | (Inr msg, w1) \<Rightarrow>
          (let envelope = feedback_request self env msg
           in case send_raises env envelope of
                Some e \<Rightarrow> (Inl e, w1)
              | None \<Rightarrow>
                  (let w2 = w1\<lparr>wire := wire w1 @ [Sent MESSAGE envelope ''both'']\<rparr>
                   in case receive_result env of
                        Inl e \<Rightarrow> (Inl e, w2)
                      | Inr feedback \<Rightarrow>
                          (case py_getitem feedback 0 of
                             Inl e \<Rightarrow> (Inl e, w2)
                           | Inr kind \<Rightarrow>
                               if kind = PStr ''terminate''
                               then (Inr (PStr '' TERMINATE ALL TASKS IMMEDIATELY ''), w2)
                               else
                                 (case py_getitem feedback 1 of
                                    Inl e \<Rightarrow> (Inl e, w2)
                                  | Inr reply \<Rightarrow> (Inr reply, w2))))))"

text \<open>The handler \<^verbatim>\<open>except TimeoutError\<close> (lines 100 to 108).\<close>

definition timeout_payload :: "CustomHumanInput \<Rightarrow> (string \<times> pyval) list" where
  "timeout_payload self =
     [(''room'', PStr (session_id self)),
      (''type'', PStr ''error''),
      (''message'', PStr ''TimeOutError'')]"

definition on_timeout ::
  "CustomHumanInput \<Rightarrow> socket_env \<Rightarrow> world \<Rightarrow> (exn + pyval) \<times> world" where
  "on_timeout self env w =
     (case emit_raises env ''message'' (timeout_payload self) of
        Some e \<Rightarrow> (Inl e, w)
      | None \<Rightarrow>
          (Inr (PStr ''exit''), w\<lparr>wire := wire w @ [Emitted ''message'' (timeout_payload self)]\<rparr>))"

text \<open>
  \<^verbatim>\<open>CustomHumanInput._run\<close>: a TimeoutError of the block goes to the handler, an
  exception of any other class leaves the method.
\<close>

definition CustomHumanInput_run ::
  "CustomHumanInput \<Rightarrow> socket_env \<Rightarrow> pyval \<Rightarrow> world \<Rightarrow> (exn + pyval) \<times> world" where
  "CustomHumanInput_run self env text w =
     (case CustomHumanInput_run_try self env text w of
        (Inr v, w') \<Rightarrow> (Inr v, w')
      | (Inl e, w') \<Rightarrow>
          if class_of e = TimeoutError then on_timeout self env w' else (Inl e, w'))"

section \<open>get_papers_from_arxiv\<close>

text \<open>
  The arXiv client is external. \<open>arxiv_results env query max_results\<close> is what
  \<^verbatim>\<open>import arxiv\<close>, \<^verbatim>\<open>arxiv.Search\<close> and \<^verbatim>\<open>arxiv.Client().results\<close> do for a query:
  they raise, or they give an iterator. Each step of the iterator is the
  \<^verbatim>\<open>title\<close> of the next result, or an exception.
\<close>

record arxiv_env =
  arxiv_results :: "pyval \<Rightarrow> nat \<Rightarrow> exn + (exn + pyval) list"

text \<open>The \<^verbatim>\<open>for\<close> loop of lines 162 and 163, \<open>results\<close> being the list built so far.\<close>

fun collect_titles :: "(exn + pyval) list \<Rightarrow> pyval list \<Rightarrow> exn + pyval list" where
  "collect_titles [] results = Inr results"
| "collect_titles (Inl e # steps) results = Inl e"
| "collect_titles (Inr title # steps) results = collect_titles steps (results @ [title])"

definition get_papers_from_arxiv_run_try :: "arxiv_env \<Rightarrow> pyval \<Rightarrow> exn + pyval" where
  "get_papers_from_arxiv_run_try env query =
     (case arxiv_results env query 10 of
        Inl e \<Rightarrow> Inl e
      | Inr steps \<Rightarrow>
          (case collect_titles steps [] of
             Inl e \<Rightarrow> Inl e
           | Inr results \<Rightarrow> Inr (PList results)))"

text \<open>\<^verbatim>\<open>get_papers_from_arxiv._run\<close> (lines 152 to 167).\<close>

definition get_papers_from_arxiv_run ::
  "arxiv_env \<Rightarrow> pyval \<Rightarrow> world \<Rightarrow> (exn + pyval) \<times> world" where
  "get_papers_from_arxiv_run env query w =
     (case get_papers_from_arxiv_run_try env query of
        Inr v \<Rightarrow> (Inr v, w)
      | Inl e \<Rightarrow>
          (Inr (PStr (''An error occurred: '' @ str_exn e)),
           w\<lparr>stdout := stdout w @ [''An error occurred: '' @ str_exn e]\<rparr>))"

section \<open>openapi_request\<close>

text \<open>\<^verbatim>\<open>d.get(k)\<close> and \<^verbatim>\<open>d.pop(k)\<close> on the keyword arguments.\<close>

definition dict_get :: "(string \<times> pyval) list \<Rightarrow> string \<Rightarrow> pyval" where
  "dict_get kvs k = (case map_of kvs k of Some v \<Rightarrow> v | None \<Rightarrow> PNone)"

definition dict_pop :: "(string \<times> pyval) list \<Rightarrow> string \<Rightarrow> exn + (string \<times> pyval) list" where
  "dict_pop kvs k =
     (case map_of kvs k of
        None \<Rightarrow> Inl (Exn KeyError ([CHR 0x27] @ k @ [CHR 0x27]))
      | Some v \<Rightarrow> Inr (filter (\<lambda>kv. fst kv \<noteq> k) kvs))"

text \<open>\<^verbatim>\<open>a + b\<close>: numbers add, strings and lists concatenate, everything else is a TypeError.\<close>

fun num_of :: "pyval \<Rightarrow> (int + real) option" where
  "num_of (PBool b) = Some (Inl (if b then 1 else 0))"
| "num_of (PInt i) = Some (Inl i)"
| "num_of (PFloat x) = Some (Inr x)"
| "num_of v = None"

fun real_of_num :: "int + real \<Rightarrow> real" where
  "real_of_num (Inl i) = real_of_int i"
| "real_of_num (Inr x) = x"

fun py_add :: "pyval \<Rightarrow> pyval \<Rightarrow> exn + pyval" where
  "py_add (PStr a) (PStr b) = Inr (PStr (a @ b))"
| "py_add (PList a) (PList b) = Inr (PList (a @ b))"
| "py_add a b =
     (case (num_of a, num_of b) of
        (Some (Inl i), Some (Inl j)) \<Rightarrow> Inr (PInt (i + j))
      | (Some x, Some y) \<Rightarrow> Inr (PFloat (real_of_num x + real_of_num y))
      | _ \<Rightarrow> Inl (Exn TypeError ''unsupported operand type(s) for +''))"

text \<open>
  The \<^verbatim>\<open>requests\<close> library is external. A response has its status code and what
  \<^verbatim>\<open>response.json()\<close> returns or raises. \<open>requests_attr env name\<close> is the attribute
  \<^verbatim>\<open>name\<close> of the module when it has one: called with a URL and \<^verbatim>\<open>params\<close>, it raises
  or returns a response.
\<close>

record response =
  status_code :: int
  json :: "exn + pyval"

record requests_env =
  import_requests :: "exn option"
  requests_attr :: "string \<Rightarrow> (pyval \<Rightarrow> (string \<times> pyval) list \<Rightarrow> exn + response) option"

text \<open>\<^verbatim>\<open>getattr(requests, name)\<close>\<close>

definition getattr_requests ::
  "requests_env \<Rightarrow> pyval \<Rightarrow> exn + (pyval \<Rightarrow> (string \<times> pyval) list \<Rightarrow> exn + response)" where
  "getattr_requests env name =
     (case name of
        PStr n \<Rightarrow>
          (case requests_attr env n of
             Some f \<Rightarrow> Inr f
           | None \<Rightarrow> Inl (Exn AttributeError (''module requests has no attribute '' @ n)))
      | _ \<Rightarrow> Inl (Exn TypeError ''attribute name must be string''))"

text \<open>The \<^verbatim>\<open>try\<close> block of \<^verbatim>\<open>openapi_request\<close> (lines 176 to 188).\<close>

definition openapi_request_try :: "requests_env \<Rightarrow> (string \<times> pyval) list \<Rightarrow> exn + pyval" where
  "openapi_request_try env kwargs =
     (case import_requests env of
        Some e \<Rightarrow> Inl e
      | None \<Rightarrow>
          (let base_url = dict_get kwargs ''__baseurl'';
               endpoint = dict_get kwargs ''__path''
           in case getattr_requests env (dict_get kwargs ''__method'') of
                Inl e \<Rightarrow> Inl e
              | Inr request_method \<Rightarrow>
                  (case dict_pop kwargs ''__baseurl'' of
                     Inl e \<Rightarrow> Inl e
                   | Inr kwargs1 \<Rightarrow>
                       (case dict_pop kwargs1 ''__path'' of
                          Inl e \<Rightarrow> Inl e
                        | Inr kwargs2 \<Rightarrow>
                            (case dict_pop kwargs2 ''__method'' of
                               Inl e \<Rightarrow> Inl e
                             | Inr kwargs3 \<Rightarrow>
                                 (case py_add base_url endpoint of
                                    Inl e \<Rightarrow> Inl e
                                  | Inr url \<Rightarrow>
                                      (case request_method url kwargs3 of
                                         Inl e \<Rightarrow> Inl e
                                       | Inr response \<Rightarrow>
                                           if status_code response = 200 then json response
                                           else Inr PNone)))))))"

text \<open>
  \<^verbatim>\<open>openapi_request\<close>: the handler prints and ends without a \<^verbatim>\<open>return\<close>, so the call
  returns \<^verbatim>\<open>None\<close> (lines 189 and 190).
\<close>

definition openapi_request ::
  "requests_env \<Rightarrow> (string \<times> pyval) list \<Rightarrow> world \<Rightarrow> (exn + pyval) \<times> world" where
  "openapi_request env kwargs w =
     (case openapi_request_try env kwargs of
        Inr v \<Rightarrow> (Inr v, w)
      | Inl e \<Rightarrow> (Inr PNone, w\<lparr>stdout := stdout w @ [''An error occurred: '' @ str_exn e]\<rparr>))"

section \<open>Concrete surroundings\<close>

text \<open>A call that starts with nothing sent, logged or printed.\<close>

definition fresh :: world where
  "fresh = \<lparr>wire = [], logged = [], stdout = []\<rparr>"

text \<open>
  A connection on which \<^verbatim>\<open>send\<close> returns, \<^verbatim>\<open>receive\<close> gives \<open>r\<close> and
  \<^verbatim>\<open>emit\<close> raises \<open>e\<close> (or returns, for \<open>None\<close>).
\<close>

definition connection :: "exn + pyval \<Rightarrow> exn option \<Rightarrow> socket_env" where
  "connection r e =
     \<lparr>uuid4_str = ''0b1f7c1e-5d0a-4a57-9d1c-3f2a8e6b4c10'',
      now_timestamp = 1700000000,
      send_raises = (\<lambda>m. None),
      receive_result = r,
      emit_raises = (\<lambda>event data. e)\<rparr>"

definition session :: CustomHumanInput where
  "session = \<lparr>session_id = ''room-1''\<rparr>"

text \<open>An arXiv client whose iterator takes the given steps for every query.\<close>

definition arxiv_giving :: "(exn + pyval) list \<Rightarrow> arxiv_env" where
  "arxiv_giving steps = \<lparr>arxiv_results = (\<lambda>query max_results. Inr steps)\<rparr>"

text \<open>
  A \<^verbatim>\<open>requests\<close> module whose only attribute is \<^verbatim>\<open>get\<close>, answering every URL with the
  response \<open>r\<close>.
\<close>

definition requests_answering :: "response \<Rightarrow> requests_env" where
  "requests_answering r =
     \<lparr>import_requests = None,
      requests_attr = (\<lambda>name. if name = ''get'' then Some (\<lambda>url params. Inr r) else None)\<rparr>"

section \<open>Auxiliary facts\<close>

text \<open>The decoder on the inputs used below.\<close>

lemma loads_question:
  \<open>json_loads ''{"question": "hi"}'' = Inr (PDict [(''question'', PStr ''hi'')])\<close>
  by code_simp

lemma loads_blank_question:
  \<open>json_loads '' {"question": "hi"}'' = Inr (PDict [(''question'', PStr ''hi'')])\<close>
  by code_simp

lemma loads_two_keys:
  \<open>json_loads ''{"a": "x", "b": "y"}'' = Inr (PDict [(''a'', PStr ''x''), (''b'', PStr ''y'')])\<close>
  by code_simp

lemma loads_not_json:
  \<open>json_loads ''{not json'' = Inl (Exn JSONDecodeError ''invalid JSON'')\<close>
  by code_simp

text \<open>A string that does not start with a brace passes through \<^verbatim>\<open>extract_message\<close>.\<close>

lemma extract_message_plain:
  "\<not> startswith s ''{'' \<Longrightarrow> extract_message (PStr s) w = (Inr (PStr s), w)"
  by (simp add: extract_message_def extract_message_try_def)

lemma proceed_plain: "\<not> startswith ''Proceed?'' ''{''"
  by (simp add: startswith_def)

text \<open>Popping a key removes it and leaves the other keys as they were.\<close>

lemma map_of_pop:
  "map_of (filter (\<lambda>kv. fst kv \<noteq> k) kvs) k' = (if k' = k then None else map_of kvs k')"
  by (induction kvs) auto

lemma dict_pop_present:
  "map_of kvs k = Some v \<Longrightarrow> dict_pop kvs k = Inr (filter (\<lambda>kv. fst kv \<noteq> k) kvs)"
  by (simp add: dict_pop_def)

lemma dict_pop_absent:
  "map_of kvs k = None \<Longrightarrow> dict_pop kvs k = Inl (Exn KeyError ([CHR 0x27] @ k @ [CHR 0x27]))"
  by (simp add: dict_pop_def)

text \<open>
  With the three reserved keys present, a method the module has and a URL that
  \<^verbatim>\<open>+\<close> can build, the block of \<^verbatim>\<open>openapi_request\<close> reaches the test of the status
  code; the request is made with the remaining keyword arguments.
\<close>

lemma openapi_request_try_response:
  assumes imp: "import_requests env = None"
    and b: "map_of kwargs ''__baseurl'' = Some b"
    and p: "map_of kwargs ''__path'' = Some p"
    and m: "map_of kwargs ''__method'' = Some (PStr m)"
    and f: "requests_attr env m = Some f"
    and url: "py_add b p = Inr url"
    and r: "f url (filter (\<lambda>kv. fst kv \<noteq> ''__method'') (filter (\<lambda>kv. fst kv \<noteq> ''__path'')
           (filter (\<lambda>kv. fst kv \<noteq> ''__baseurl'') kwargs))) = Inr r"
  shows "openapi_request_try env kwargs = (if status_code r = 200 then json r else Inr PNone)"
proof -
  define k1 where "k1 = filter (\<lambda>kv. fst kv \<noteq> ''__baseurl'') kwargs"
  define k2 where "k2 = filter (\<lambda>kv. fst kv \<noteq> ''__path'') k1"
  define k3 where "k3 = filter (\<lambda>kv. fst kv \<noteq> ''__method'') k2"
  have p1: "dict_pop kwargs ''__baseurl'' = Inr k1"
    using b by (simp add: dict_pop_present k1_def)
  have "map_of k1 ''__path'' = Some p"
    using p by (simp add: k1_def map_of_pop)
  then have p2: "dict_pop k1 ''__path'' = Inr k2"
    by (simp add: dict_pop_present k2_def)
  have "map_of k2 ''__method'' = Some (PStr m)"
    using m by (simp add: k1_def k2_def map_of_pop del: filter_filter)
  then have p3: "dict_pop k2 ''__method'' = Inr k3"
    by (simp add: dict_pop_present k3_def)
  have g: "getattr_requests env (dict_get kwargs ''__method'') = Inr f"
    using m f by (simp add: getattr_requests_def dict_get_def)
  have r': "f url k3 = Inr r"
    using r by (simp only: k1_def k2_def k3_def)
  have gb: "dict_get kwargs ''__baseurl'' = b" and gp: "dict_get kwargs ''__path'' = p"
    using b p by (simp_all add: dict_get_def)
  show ?thesis
    by (simp add: openapi_request_try_def imp g gb gp p1 p2 p3 url r')
qed

text \<open>Without one of the three reserved keys the block raises.\<close>

lemma openapi_request_try_missing:
  assumes "map_of kwargs ''__baseurl'' = None \<or> map_of kwargs ''__path'' = None
             \<or> map_of kwargs ''__method'' = None"
  shows "\<exists>e. openapi_request_try env kwargs = Inl e"
proof (cases "import_requests env")
  case (Some e)
  then show ?thesis by (simp add: openapi_request_try_def)
next
  case None
  show ?thesis
  proof (cases "getattr_requests env (dict_get kwargs ''__method'')")
    case (Inl e)
    then show ?thesis using None by (simp add: openapi_request_try_def)
  next
    case (Inr f)
    then have m: "map_of kwargs ''__method'' \<noteq> None"
      by (auto simp: getattr_requests_def dict_get_def split: option.splits pyval.splits)
    show ?thesis
    proof (cases "map_of kwargs ''__baseurl''")
      case nb: None
      then show ?thesis using None Inr
        by (simp add: openapi_request_try_def dict_pop_absent)
    next
      case (Some b)
      then have "map_of kwargs ''__path'' = None" using assms m by auto
      then have "map_of (filter (\<lambda>kv. fst kv \<noteq> ''__baseurl'') kwargs) ''__path'' = None"
        by (simp add: map_of_pop)
      then show ?thesis using None Inr Some
        by (simp add: openapi_request_try_def dict_pop_absent dict_pop_present)
    qed
  qed
qed

lemma openapi_request_failure:
  "openapi_request_try env kwargs = Inl e \<Longrightarrow>
   openapi_request env kwargs w =
     (Inr PNone, w\<lparr>stdout := stdout w @ [''An error occurred: '' @ str_exn e]\<rparr>)"
  by (simp add: openapi_request_def)

lemma openapi_request_returns: "\<exists>v. fst (openapi_request env kwargs w) = Inr v"
  by (simp add: openapi_request_def split: sum.splits)

section \<open>Normalising the text: extract_message\<close>

text \<open>
  C4, as the code has it: for every string that starts with \<^verbatim>\<open>{\<close> and that
  \<^verbatim>\<open>json.loads\<close> decodes to an object with exactly one entry whose value is not
  \<^verbatim>\<open>None\<close>, \<^verbatim>\<open>extract_message\<close> returns that value and logs nothing.
\<close>

theorem extract_message_single_entry:
  assumes "startswith s ''{''"
    and "json_loads s = Inr (PDict [(k, v)])"
    and "v \<noteq> PNone"
  shows "extract_message (PStr s) w = (Inr v, w)"
  using assms by (simp add: extract_message_def extract_message_try_def)

text \<open>
  The instance of the specification: \<^verbatim>\<open>extract_message('{"question": "hi"}')\<close> is
  \<^verbatim>\<open>"hi"\<close>.
\<close>

theorem extract_message_single_entry_witness:
  \<open>startswith ''{"question": "hi"}'' ''{''
   \<and> json_loads ''{"question": "hi"}'' = Inr (PDict [(''question'', PStr ''hi'')])
   \<and> PStr ''hi'' \<noteq> PNone
   \<and> extract_message (PStr ''{"question": "hi"}'') fresh = (Inr (PStr ''hi''), fresh)\<close>
proof -
  have a: \<open>startswith ''{"question": "hi"}'' ''{''\<close>
    by (simp add: startswith_def)
  have c: "PStr ''hi'' \<noteq> PNone"
    by simp
  show ?thesis
    using extract_message_single_entry [OF a loads_question c, of fresh] a loads_question
    by simp
qed

text \<open>
  C4 as it is worded speaks of every string that parses as such an object. White space may
  come before the brace: \<^verbatim>\<open>json.loads\<close> decodes the string below to the one-entry object,
  but the string does not start with \<^verbatim>\<open>{\<close>, so the test of line 42 fails and the
  string itself comes back.
\<close>

theorem extract_message_leading_blank_counterexample:
  \<open>json_loads '' {"question": "hi"}'' = Inr (PDict [(''question'', PStr ''hi'')])
   \<and> extract_message (PStr '' {"question": "hi"}'') fresh
       = (Inr (PStr '' {"question": "hi"}''), fresh)
   \<and> fst (extract_message (PStr '' {"question": "hi"}'') fresh) \<noteq> Inr (PStr ''hi'')\<close>
  by (simp add: loads_blank_question extract_message_def extract_message_try_def startswith_def)

text \<open>
  C5: for every string that \<^verbatim>\<open>json.loads\<close> decodes to an object with more than one
  entry, \<^verbatim>\<open>extract_message\<close> returns the string itself, whether or not the string
  starts with \<^verbatim>\<open>{\<close>.
\<close>

theorem extract_message_multi_entry:
  assumes "json_loads s = Inr (PDict kvs)"
    and "1 < length kvs"
  shows "extract_message (PStr s) w = (Inr (PStr s), w)"
  using assms by (simp add: extract_message_def extract_message_try_def)

theorem extract_message_multi_entry_witness:
  \<open>json_loads ''{"a": "x", "b": "y"}'' = Inr (PDict [(''a'', PStr ''x''), (''b'', PStr ''y'')])
   \<and> 1 < length [(''a'', PStr ''x''), (''b'', PStr ''y'')]
   \<and> extract_message (PStr ''{"a": "x", "b": "y"}'') fresh
       = (Inr (PStr ''{"a": "x", "b": "y"}''), fresh)\<close>
proof -
  have l: "1 < length [(''a'', PStr ''x''), (''b'', PStr ''y'')]"
    by simp
  show ?thesis
    using extract_message_multi_entry [OF loads_two_keys l, of fresh] loads_two_keys
    by simp
qed

text \<open>
  C6: a value that is not a string starting with \<^verbatim>\<open>{\<close> is returned as it is, with
  nothing logged; a string starting with \<^verbatim>\<open>{\<close> on which \<^verbatim>\<open>json.loads\<close> raises is
  returned as it is, and the exception is logged; and \<^verbatim>\<open>extract_message\<close> returns on
  every argument.
\<close>

theorem extract_message_fail_open:
  "(\<not> (\<exists>s. text = PStr s \<and> startswith s ''{'') \<longrightarrow> extract_message text w = (Inr text, w))
   \<and> (startswith s ''{'' \<and> json_loads s = Inl e \<longrightarrow>
        extract_message (PStr s) w = (Inr (PStr s), w\<lparr>logged := logged w @ [e]\<rparr>))
   \<and> (\<exists>v. fst (extract_message text w) = Inr v)"
proof (intro conjI impI)
  assume "\<not> (\<exists>s. text = PStr s \<and> startswith s ''{'')"
  then show "extract_message text w = (Inr text, w)"
    by (cases "text") (auto simp: extract_message_def extract_message_try_def)
next
  assume "startswith s ''{'' \<and> json_loads s = Inl e"
  then show "extract_message (PStr s) w = (Inr (PStr s), w\<lparr>logged := logged w @ [e]\<rparr>)"
    by (simp add: extract_message_def extract_message_try_def)
next
  show "\<exists>v. fst (extract_message text w) = Inr v"
    by (simp add: extract_message_def split: sum.splits)
qed

text \<open>
  The instances of the specification: a plain string, \<^verbatim>\<open>None\<close>, and the malformed
  \<^verbatim>\<open>'{not json'\<close>, whose JSONDecodeError is logged.
\<close>

theorem extract_message_fail_open_witness:
  "extract_message (PStr ''hello'') fresh = (Inr (PStr ''hello''), fresh)
   \<and> extract_message PNone fresh = (Inr PNone, fresh)
   \<and> startswith ''{not json'' ''{''
   \<and> json_loads ''{not json'' = Inl (Exn JSONDecodeError ''invalid JSON'')
   \<and> extract_message (PStr ''{not json'') fresh
       = (Inr (PStr ''{not json''), fresh\<lparr>logged := [Exn JSONDecodeError ''invalid JSON'']\<rparr>)"
proof -
  have a: "\<not> (\<exists>s. PStr ''hello'' = PStr s \<and> startswith s ''{'')"
    by (simp add: startswith_def)
  have b: "\<not> (\<exists>s. PNone = PStr s \<and> startswith s ''{'')"
    by simp
  have c: "startswith ''{not json'' ''{''"
    by (simp add: startswith_def)
  have 1: "extract_message (PStr ''hello'') fresh = (Inr (PStr ''hello''), fresh)"
    using extract_message_fail_open [of "PStr ''hello''" fresh] a by blast
  have 2: "extract_message PNone fresh = (Inr PNone, fresh)"
    using extract_message_fail_open [of PNone fresh] b by blast
  have 3: "extract_message (PStr ''{not json'') fresh
       = (Inr (PStr ''{not json''), fresh\<lparr>logged := logged fresh @ [Exn JSONDecodeError ''invalid JSON'']\<rparr>)"
    using extract_message_fail_open [of _ fresh "''{not json''" "Exn JSONDecodeError ''invalid JSON''"]
      c loads_not_json by blast
  show ?thesis
    using 1 2 3 c loads_not_json by (simp add: fresh_def)
qed

text \<open>
  C7: \<^verbatim>\<open>extract_message('{"a": null}')\<close> is \<^verbatim>\<open>None\<close>: the object has one entry, its
  value is \<^verbatim>\<open>None\<close>, so the generator of line 46 yields nothing.
\<close>

theorem extract_message_single_null:
  \<open>extract_message (PStr ''{"a": null}'') w = (Inr PNone, w)\<close>
  by (simp add: extract_message_def extract_message_try_def startswith_def json_loads_def
      is_ws_def punct_def atom_value_def)

text \<open>
  C9: \<^verbatim>\<open>extract_message('{}')\<close> is \<^verbatim>\<open>None\<close>, not the string: the object has no entry,
  so it is not longer than one and the generator of line 46 yields nothing.
\<close>

theorem extract_message_empty_object:
  \<open>extract_message (PStr ''{}'') w = (Inr PNone, w)\<close>
  by (simp add: extract_message_def extract_message_try_def startswith_def json_loads_def
      is_ws_def punct_def)

section \<open>Waiting for the reply: CustomHumanInput._run\<close>

text \<open>
  C1: once the feedback request is published (\<^verbatim>\<open>send\<close> returned), for every reply of two
  elements \<^verbatim>\<open>_run\<close> returns \<^verbatim>\<open>" TERMINATE ALL TASKS IMMEDIATELY "\<close> when the first
  element equals \<^verbatim>\<open>"terminate"\<close>, whatever the second is, and the second element
  otherwise. The request is the only event sent.
\<close>

theorem human_input_reply:
  assumes "extract_message text w = (Inr msg, w1)"
    and "send_raises env (feedback_request self env msg) = None"
    and "receive_result env = Inr (PList [kind, reply])"
  shows "CustomHumanInput_run self env text w =
     (Inr (if kind = PStr ''terminate'' then PStr '' TERMINATE ALL TASKS IMMEDIATELY '' else reply),
      w1\<lparr>wire := wire w1 @ [Sent MESSAGE (feedback_request self env msg) ''both'']\<rparr>)"
  using assms by (simp add: CustomHumanInput_run_def CustomHumanInput_run_try_def)

text \<open>
  The replies of the specification: \<^verbatim>\<open>("terminate", anything)\<close> gives the sentinel,
  \<^verbatim>\<open>("ok", "yes")\<close> gives \<^verbatim>\<open>"yes"\<close>.
\<close>

theorem human_input_reply_witness:
  "extract_message (PStr ''Proceed?'') fresh = (Inr (PStr ''Proceed?''), fresh)
   \<and> fst (CustomHumanInput_run session
        (connection (Inr (PList [PStr ''terminate'', PStr ''anything''])) None)
        (PStr ''Proceed?'') fresh) = Inr (PStr '' TERMINATE ALL TASKS IMMEDIATELY '')
   \<and> fst (CustomHumanInput_run session
        (connection (Inr (PList [PStr ''ok'', PStr ''yes''])) None)
        (PStr ''Proceed?'') fresh) = Inr (PStr ''yes'')"
proof -
  have e: "extract_message (PStr ''Proceed?'') fresh = (Inr (PStr ''Proceed?''), fresh)"
    by (rule extract_message_plain [OF proceed_plain])
  have s: "\<And>r m. send_raises (connection r None) m = None"
    by (simp add: connection_def)
  have r: "\<And>r. receive_result (connection r None) = r"
    by (simp add: connection_def)
  show ?thesis
    using human_input_reply [OF e s r, of session "PStr ''terminate''" "PStr ''anything''"]
      human_input_reply [OF e s r, of session "PStr ''ok''" "PStr ''yes''"] e
    by simp
qed


text \<open>
  The same holds for every exception of \<^verbatim>\<open>receive\<close> whose class is not the built-in
  TimeoutError: it leaves \<^verbatim>\<open>_run\<close>, and \<^verbatim>\<open>emit\<close> is not called.
\<close>

lemma human_input_receive_propagates:
  assumes "extract_message text w = (Inr msg, w1)"
    and "send_raises env (feedback_request self env msg) = None"
    and "receive_result env = Inl e"
    and "class_of e \<noteq> TimeoutError"
  shows "CustomHumanInput_run self env text w =
     (Inl e, w1\<lparr>wire := wire w1 @ [Sent MESSAGE (feedback_request self env msg) ''both'']\<rparr>)"
  using assms by (simp add: CustomHumanInput_run_def CustomHumanInput_run_try_def)

text \<open>
  The handler is reached when \<^verbatim>\<open>receive\<close> raises the built-in TimeoutError. Then
  \<^verbatim>\<open>_run\<close> calls \<^verbatim>\<open>emit\<close> once, with the event \<^verbatim>\<open>"message"\<close> and the payload
  \<^verbatim>\<open>{room: session id, type: "error", message: "TimeOutError"}\<close>. If the call returns, the
  notification is the only event after the request and \<^verbatim>\<open>_run\<close> returns \<^verbatim>\<open>"exit"\<close>; if
  the call raises, nothing more is on the wire and its exception leaves \<^verbatim>\<open>_run\<close>.
\<close>

lemma human_input_timeout_handled:
  assumes "extract_message text w = (Inr msg, w1)"
    and "send_raises env (feedback_request self env msg) = None"
    and "receive_result env = Inl e"
    and "class_of e = TimeoutError"
  shows "timeout_payload self =
           [(''room'', PStr (session_id self)), (''type'', PStr ''error''),
            (''message'', PStr ''TimeOutError'')]
    \<and> CustomHumanInput_run self env text w =
     (case emit_raises env ''message'' (timeout_payload self) of
        None \<Rightarrow>
          (Inr (PStr ''exit''),
           w1\<lparr>wire := wire w1 @ [Sent MESSAGE (feedback_request self env msg) ''both'',
                                 Emitted ''message'' (timeout_payload self)]\<rparr>)
      | Some e' \<Rightarrow>
          (Inl e', w1\<lparr>wire := wire w1 @ [Sent MESSAGE (feedback_request self env msg) ''both'']\<rparr>))"
  using assms
  by (simp add: CustomHumanInput_run_def CustomHumanInput_run_try_def on_timeout_def
      timeout_payload_def split: option.splits)

text \<open>
  The built-in TimeoutError on a connection whose \<^verbatim>\<open>emit\<close> returns: one notification,
  then \<^verbatim>\<open>"exit"\<close>.
\<close>

lemma human_input_timeout_handled_example:
  "extract_message (PStr ''Proceed?'') fresh = (Inr (PStr ''Proceed?''), fresh)
   \<and> class_of (Exn TimeoutError []) = TimeoutError
   \<and> CustomHumanInput_run session (connection (Inl (Exn TimeoutError [])) None)
        (PStr ''Proceed?'') fresh =
       (Inr (PStr ''exit''),
        fresh\<lparr>wire :=
          [Sent MESSAGE
             (feedback_request session (connection (Inl (Exn TimeoutError [])) None)
                (PStr ''Proceed?'')) ''both'',
           Emitted ''message''
             [(''room'', PStr ''room-1''), (''type'', PStr ''error''),
              (''message'', PStr ''TimeOutError'')]]\<rparr>)"
proof -
  have e: "extract_message (PStr ''Proceed?'') fresh = (Inr (PStr ''Proceed?''), fresh)"
    by (rule extract_message_plain [OF proceed_plain])
  have s: "\<And>r m. send_raises (connection r None) m = None"
    by (simp add: connection_def)
  have r: "\<And>r. receive_result (connection r None) = r"
    by (simp add: connection_def)
  have c: "class_of (Exn TimeoutError []) = TimeoutError"
    by simp
  have m: "\<And>r ev d. emit_raises (connection r None) ev d = None"
    by (simp add: connection_def)
  have w: "wire fresh = []"
    by (simp add: fresh_def)
  show ?thesis
    using human_input_timeout_handled [OF e s r c, of session] e
    by (simp add: m w timeout_payload_def session_def)
qed

text \<open>
  On a connection whose \<^verbatim>\<open>emit\<close> raises (here because the client is disconnected), the
  exception of \<^verbatim>\<open>emit\<close> leaves \<^verbatim>\<open>_run\<close>: the call is not inside a \<^verbatim>\<open>try\<close> of its
  own.
\<close>

lemma human_input_timeout_emit_raises:
  "CustomHumanInput_run session
     (connection (Inl (Exn TimeoutError [])) (Some (Exn (OtherError ''DisconnectedError'') [])))
     (PStr ''Proceed?'') fresh =
   (Inl (Exn (OtherError ''DisconnectedError'') []),
    fresh\<lparr>wire :=
      [Sent MESSAGE
         (feedback_request session
            (connection (Inl (Exn TimeoutError [])) (Some (Exn (OtherError ''DisconnectedError'') [])))
            (PStr ''Proceed?'')) ''both'']\<rparr>)"
  by (simp add: CustomHumanInput_run_def CustomHumanInput_run_try_def on_timeout_def
      connection_def fresh_def extract_message_def extract_message_try_def startswith_def)

section \<open>The sibling tools\<close>

text \<open>The loop over results that all arrive collects their titles in order.\<close>

lemma collect_titles_all:
  "collect_titles (map Inr titles) results = Inr (results @ titles)"
  by (induction titles arbitrary: results) auto

lemma get_papers_success:
  "arxiv_results env query 10 = Inr (map Inr titles) \<Longrightarrow>
   get_papers_from_arxiv_run env query w = (Inr (PList titles), w)"
  by (simp add: get_papers_from_arxiv_run_def get_papers_from_arxiv_run_try_def collect_titles_all)

text \<open>
  C8: a query that succeeds with one paper makes \<^verbatim>\<open>get_papers_from_arxiv._run\<close> return
  the list of the titles, \<^verbatim>\<open>['Attention Is All You Need']\<close>, which is not a string.
\<close>

theorem get_papers_returns_list:
  "get_papers_from_arxiv_run (arxiv_giving [Inr (PStr ''Attention Is All You Need'')])
     (PStr ''transformers'') fresh = (Inr (PList [PStr ''Attention Is All You Need'']), fresh)
   \<and> (\<forall>s. PList [PStr ''Attention Is All You Need''] \<noteq> PStr s)"
  by (simp add: get_papers_from_arxiv_run_def get_papers_from_arxiv_run_try_def arxiv_giving_def)

text \<open>
  C3, as the code has it. An exception in \<^verbatim>\<open>get_papers_from_arxiv._run\<close> is printed and
  becomes the string \<^verbatim>\<open>"An error occurred: "\<close> followed by \<^verbatim>\<open>str(e)\<close>, and the method
  never raises. \<^verbatim>\<open>openapi_request\<close> never raises either. \<^verbatim>\<open>CustomHumanInput._run\<close>
  handles the TimeoutError only: an exception of another class leaves the method, and a
  TimeoutError becomes \<^verbatim>\<open>"exit"\<close> when \<^verbatim>\<open>emit\<close> returns.
\<close>

theorem tool_failures:
  "(get_papers_from_arxiv_run_try aenv query = Inl e \<longrightarrow>
      get_papers_from_arxiv_run aenv query w =
        (Inr (PStr (''An error occurred: '' @ str_exn e)),
         w\<lparr>stdout := stdout w @ [''An error occurred: '' @ str_exn e]\<rparr>))
   \<and> (\<exists>v. fst (get_papers_from_arxiv_run aenv query w) = Inr v)
   \<and> (\<exists>v. fst (openapi_request renv kwargs w) = Inr v)
   \<and> (CustomHumanInput_run_try self senv text w = (Inl e', w') \<and> class_of e' \<noteq> TimeoutError \<longrightarrow>
        CustomHumanInput_run self senv text w = (Inl e', w'))
   \<and> (CustomHumanInput_run_try self senv text w = (Inl e', w') \<and> class_of e' = TimeoutError
        \<and> emit_raises senv ''message'' (timeout_payload self) = None \<longrightarrow>
        fst (CustomHumanInput_run self senv text w) = Inr (PStr ''exit''))"
proof (intro conjI impI)
  assume "get_papers_from_arxiv_run_try aenv query = Inl e"
  then show "get_papers_from_arxiv_run aenv query w =
        (Inr (PStr (''An error occurred: '' @ str_exn e)),
         w\<lparr>stdout := stdout w @ [''An error occurred: '' @ str_exn e]\<rparr>)"
    by (simp add: get_papers_from_arxiv_run_def)
next
  show "\<exists>v. fst (get_papers_from_arxiv_run aenv query w) = Inr v"
    by (simp add: get_papers_from_arxiv_run_def split: sum.splits)
next
  show "\<exists>v. fst (openapi_request renv kwargs w) = Inr v"
    by (rule openapi_request_returns)
next
  assume "CustomHumanInput_run_try self senv text w = (Inl e', w') \<and> class_of e' \<noteq> TimeoutError"
  then show "CustomHumanInput_run self senv text w = (Inl e', w')"
    by (simp add: CustomHumanInput_run_def)
next
  assume "CustomHumanInput_run_try self senv text w = (Inl e', w') \<and> class_of e' = TimeoutError
        \<and> emit_raises senv ''message'' (timeout_payload self) = None"
  then show "fst (CustomHumanInput_run self senv text w) = Inr (PStr ''exit'')"
    by (simp add: CustomHumanInput_run_def on_timeout_def)
qed

text \<open>
  An arXiv query that fails at the second result gives the error string; a disconnected
  client while waiting leaves \<^verbatim>\<open>_run\<close> as an exception; a timeout gives \<^verbatim>\<open>"exit"\<close>.
\<close>

theorem tool_failures_witness:
  "get_papers_from_arxiv_run
       (arxiv_giving [Inr (PStr ''A''), Inl (Exn (OtherError ''HTTPError'') ''HTTP 503'')])
       (PStr ''transformers'') fresh =
     (Inr (PStr ''An error occurred: HTTP 503''),
      fresh\<lparr>stdout := [''An error occurred: HTTP 503'']\<rparr>)
   \<and> fst (CustomHumanInput_run session
        (connection (Inl (Exn (OtherError ''DisconnectedError'') [])) None)
        (PStr ''Proceed?'') fresh) = Inl (Exn (OtherError ''DisconnectedError'') [])
   \<and> fst (CustomHumanInput_run session (connection (Inl (Exn TimeoutError [])) None)
        (PStr ''Proceed?'') fresh) = Inr (PStr ''exit'')"
proof -
  let ?aenv = "arxiv_giving [Inr (PStr ''A''), Inl (Exn (OtherError ''HTTPError'') ''HTTP 503'')]"
  let ?down = "connection (Inl (Exn (OtherError ''DisconnectedError'') [])) None"
  let ?late = "connection (Inl (Exn TimeoutError [])) None"
  let ?sent = "\<lambda>env. fresh\<lparr>wire := [Sent MESSAGE (feedback_request session env (PStr ''Proceed?'')) ''both'']\<rparr>"
  have a: "get_papers_from_arxiv_run_try ?aenv (PStr ''transformers'')
             = Inl (Exn (OtherError ''HTTPError'') ''HTTP 503'')"
    by (simp add: get_papers_from_arxiv_run_try_def arxiv_giving_def)
  have e: "extract_message (PStr ''Proceed?'') fresh = (Inr (PStr ''Proceed?''), fresh)"
    by (rule extract_message_plain [OF proceed_plain])
  have wf: "wire fresh = []"
    by (simp add: fresh_def)
  have d: "CustomHumanInput_run_try session ?down (PStr ''Proceed?'') fresh
             = (Inl (Exn (OtherError ''DisconnectedError'') []), ?sent ?down)
           \<and> class_of (Exn (OtherError ''DisconnectedError'') []) \<noteq> TimeoutError"
    by (simp add: CustomHumanInput_run_try_def e connection_def wf)
  have t: "CustomHumanInput_run_try session ?late (PStr ''Proceed?'') fresh
             = (Inl (Exn TimeoutError []), ?sent ?late)
           \<and> class_of (Exn TimeoutError []) = TimeoutError
           \<and> emit_raises ?late ''message'' (timeout_payload session) = None"
    by (simp add: CustomHumanInput_run_try_def e connection_def wf)
  have 1: "get_papers_from_arxiv_run ?aenv (PStr ''transformers'') fresh =
        (Inr (PStr (''An error occurred: '' @ str_exn (Exn (OtherError ''HTTPError'') ''HTTP 503''))),
         fresh\<lparr>stdout := stdout fresh @
           [''An error occurred: '' @ str_exn (Exn (OtherError ''HTTPError'') ''HTTP 503'')]\<rparr>)"
    using tool_failures [of ?aenv "PStr ''transformers''" "Exn (OtherError ''HTTPError'') ''HTTP 503''"
        fresh] a
    by blast
  have 2: "CustomHumanInput_run session ?down (PStr ''Proceed?'') fresh
             = (Inl (Exn (OtherError ''DisconnectedError'') []), ?sent ?down)"
    using tool_failures [of _ _ _ fresh _ _ session ?down "PStr ''Proceed?''"
        "Exn (OtherError ''DisconnectedError'') []" "?sent ?down"] d
    by blast
  have 3: "fst (CustomHumanInput_run session ?late (PStr ''Proceed?'') fresh) = Inr (PStr ''exit'')"
    using tool_failures [of _ _ _ fresh _ _ session ?late "PStr ''Proceed?''"
        "Exn TimeoutError []" "?sent ?late"] t
    by blast
  show ?thesis
    using 1 2 3 by (simp add: fresh_def)
qed

text \<open>
  C3 as it is worded lets no failure of any tool reach the caller. A reply of one element
  makes \<^verbatim>\<open>feedback[1]\<close> raise an IndexError, which \<^verbatim>\<open>except TimeoutError\<close> does not
  catch: \<^verbatim>\<open>CustomHumanInput._run\<close> raises it.
\<close>

theorem human_input_short_reply_counterexample:
  "fst (CustomHumanInput_run session (connection (Inr (PList [PStr ''ok''])) None)
      (PStr ''Proceed?'') fresh) = Inl (Exn IndexError ''list index out of range'')"
  by (simp add: CustomHumanInput_run_def CustomHumanInput_run_try_def on_timeout_def
      connection_def extract_message_plain [OF proceed_plain])

text \<open>
  C10: when the request is made and answered, \<^verbatim>\<open>openapi_request\<close> returns the parsed
  body for the status code 200 and \<^verbatim>\<open>None\<close> for any other status code; when the block
  raises, whatever the exception, the call prints it and returns \<^verbatim>\<open>None\<close>; that is so in
  particular when \<^verbatim>\<open>__baseurl\<close>, \<^verbatim>\<open>__path\<close> or \<^verbatim>\<open>__method\<close> is missing; and the call
  never raises.
\<close>

theorem openapi_request_result:
  "(import_requests env = None \<and> map_of kwargs ''__baseurl'' = Some b
      \<and> map_of kwargs ''__path'' = Some p \<and> map_of kwargs ''__method'' = Some (PStr m)
      \<and> requests_attr env m = Some f \<and> py_add b p = Inr url
      \<and> f url (filter (\<lambda>kv. fst kv \<noteq> ''__method'') (filter (\<lambda>kv. fst kv \<noteq> ''__path'')
             (filter (\<lambda>kv. fst kv \<noteq> ''__baseurl'') kwargs))) = Inr r \<longrightarrow>
      (status_code r = 200 \<and> json r = Inr body \<longrightarrow> openapi_request env kwargs w = (Inr body, w))
      \<and> (status_code r \<noteq> 200 \<longrightarrow> openapi_request env kwargs w = (Inr PNone, w)))
   \<and> (openapi_request_try env kwargs = Inl e \<longrightarrow>
        openapi_request env kwargs w =
          (Inr PNone, w\<lparr>stdout := stdout w @ [''An error occurred: '' @ str_exn e]\<rparr>))
   \<and> (map_of kwargs ''__baseurl'' = None \<or> map_of kwargs ''__path'' = None
        \<or> map_of kwargs ''__method'' = None \<longrightarrow>
        fst (openapi_request env kwargs w) = Inr PNone)
   \<and> (\<exists>v. fst (openapi_request env kwargs w) = Inr v)"
proof (intro conjI impI)
  assume h: "import_requests env = None \<and> map_of kwargs ''__baseurl'' = Some b
      \<and> map_of kwargs ''__path'' = Some p \<and> map_of kwargs ''__method'' = Some (PStr m)
      \<and> requests_attr env m = Some f \<and> py_add b p = Inr url
      \<and> f url (filter (\<lambda>kv. fst kv \<noteq> ''__method'') (filter (\<lambda>kv. fst kv \<noteq> ''__path'')
             (filter (\<lambda>kv. fst kv \<noteq> ''__baseurl'') kwargs))) = Inr r"
    and s: "status_code r = 200 \<and> json r = Inr body"
  from h have "openapi_request_try env kwargs = (if status_code r = 200 then json r else Inr PNone)"
    using openapi_request_try_response [of env kwargs b p m f url r] by blast
  with s show "openapi_request env kwargs w = (Inr body, w)"
    by (simp add: openapi_request_def)
next
  assume h: "import_requests env = None \<and> map_of kwargs ''__baseurl'' = Some b
      \<and> map_of kwargs ''__path'' = Some p \<and> map_of kwargs ''__method'' = Some (PStr m)
      \<and> requests_attr env m = Some f \<and> py_add b p = Inr url
      \<and> f url (filter (\<lambda>kv. fst kv \<noteq> ''__method'') (filter (\<lambda>kv. fst kv \<noteq> ''__path'')
             (filter (\<lambda>kv. fst kv \<noteq> ''__baseurl'') kwargs))) = Inr r"
    and s: "status_code r \<noteq> 200"
  from h have "openapi_request_try env kwargs = (if status_code r = 200 then json r else Inr PNone)"
    using openapi_request_try_response [of env kwargs b p m f url r] by blast
  with s show "openapi_request env kwargs w = (Inr PNone, w)"
    by (simp add: openapi_request_def)
next
  assume "openapi_request_try env kwargs = Inl e"
  then show "openapi_request env kwargs w =
          (Inr PNone, w\<lparr>stdout := stdout w @ [''An error occurred: '' @ str_exn e]\<rparr>)"
    by (rule openapi_request_failure)
next
  assume "map_of kwargs ''__baseurl'' = None \<or> map_of kwargs ''__path'' = None
        \<or> map_of kwargs ''__method'' = None"
  then obtain x where "openapi_request_try env kwargs = Inl x"
    using openapi_request_try_missing by blast
  then show "fst (openapi_request env kwargs w) = Inr PNone"
    by (simp add: openapi_request_failure)
next
  show "\<exists>v. fst (openapi_request env kwargs w) = Inr v"
    by (rule openapi_request_returns)
qed

text \<open>
  A \<^verbatim>\<open>get\<close> of \<^verbatim>\<open>https://api.example.com/v1/items\<close>: the body for the status 200,
  \<^verbatim>\<open>None\<close> for the status 404, \<^verbatim>\<open>None\<close> when the body is not JSON, and \<^verbatim>\<open>None\<close>
  when the reserved keys are missing.
\<close>

theorem openapi_request_result_witness:
  "openapi_request (requests_answering \<lparr>status_code = 200, json = Inr (PDict [(''ok'', PBool True)])\<rparr>)
       [(''__baseurl'', PStr ''https://api.example.com''), (''__path'', PStr ''/v1/items''),
        (''__method'', PStr ''get''), (''q'', PStr ''llm'')] fresh
     = (Inr (PDict [(''ok'', PBool True)]), fresh)
   \<and> openapi_request (requests_answering \<lparr>status_code = 404, json = Inr (PDict [])\<rparr>)
       [(''__baseurl'', PStr ''https://api.example.com''), (''__path'', PStr ''/v1/items''),
        (''__method'', PStr ''get''), (''q'', PStr ''llm'')] fresh
     = (Inr PNone, fresh)
   \<and> openapi_request
       (requests_answering \<lparr>status_code = 200, json = Inl (Exn JSONDecodeError ''invalid JSON'')\<rparr>)
       [(''__baseurl'', PStr ''https://api.example.com''), (''__path'', PStr ''/v1/items''),
        (''__method'', PStr ''get''), (''q'', PStr ''llm'')] fresh
     = (Inr PNone, fresh\<lparr>stdout := [''An error occurred: invalid JSON'']\<rparr>)
   \<and> fst (openapi_request
       (requests_answering \<lparr>status_code = 200, json = Inr (PDict [(''ok'', PBool True)])\<rparr>)
       [(''q'', PStr ''llm'')] fresh) = Inr PNone"
proof -
  let ?kw = "[(''__baseurl'', PStr ''https://api.example.com''), (''__path'', PStr ''/v1/items''),
        (''__method'', PStr ''get''), (''q'', PStr ''llm'')]"
  let ?ok = "\<lparr>status_code = 200, json = Inr (PDict [(''ok'', PBool True)])\<rparr>"
  let ?nf = "\<lparr>status_code = 404, json = Inr (PDict [])\<rparr>"
  let ?bad = "\<lparr>status_code = 200, json = Inl (Exn JSONDecodeError ''invalid JSON'')\<rparr>"
  let ?f = "\<lambda>r. (\<lambda>url params. Inr r) :: pyval \<Rightarrow> (string \<times> pyval) list \<Rightarrow> exn + response"
  have h: "\<And>r. import_requests (requests_answering r) = None
      \<and> map_of ?kw ''__baseurl'' = Some (PStr ''https://api.example.com'')
      \<and> map_of ?kw ''__path'' = Some (PStr ''/v1/items'')
      \<and> map_of ?kw ''__method'' = Some (PStr ''get'')
      \<and> requests_attr (requests_answering r) ''get'' = Some (?f r)
      \<and> py_add (PStr ''https://api.example.com'') (PStr ''/v1/items'')
          = Inr (PStr ''https://api.example.com/v1/items'')
      \<and> ?f r (PStr ''https://api.example.com/v1/items'')
            (filter (\<lambda>kv. fst kv \<noteq> ''__method'') (filter (\<lambda>kv. fst kv \<noteq> ''__path'')
               (filter (\<lambda>kv. fst kv \<noteq> ''__baseurl'') ?kw))) = Inr r"
    by (simp add: requests_answering_def)
  have s1: "status_code ?ok = 200 \<and> json ?ok = Inr (PDict [(''ok'', PBool True)])"
    by simp
  have s2: "status_code ?nf \<noteq> 200"
    by simp
  have 1: "openapi_request (requests_answering ?ok) ?kw fresh = (Inr (PDict [(''ok'', PBool True)]), fresh)"
    using openapi_request_result [of "requests_answering ?ok" ?kw
        "PStr ''https://api.example.com''" "PStr ''/v1/items''" "''get''" "?f ?ok"
        "PStr ''https://api.example.com/v1/items''" ?ok "PDict [(''ok'', PBool True)]" fresh]
      h [of ?ok] s1
    by blast
  have 2: "openapi_request (requests_answering ?nf) ?kw fresh = (Inr PNone, fresh)"
    using openapi_request_result [of "requests_answering ?nf" ?kw
        "PStr ''https://api.example.com''" "PStr ''/v1/items''" "''get''" "?f ?nf"
        "PStr ''https://api.example.com/v1/items''" ?nf _ fresh]
      h [of ?nf] s2
    by blast
  have t: "openapi_request_try (requests_answering ?bad) ?kw = Inl (Exn JSONDecodeError ''invalid JSON'')"
    using openapi_request_try_response [of "requests_answering ?bad" ?kw
        "PStr ''https://api.example.com''" "PStr ''/v1/items''" "''get''" "?f ?bad"
        "PStr ''https://api.example.com/v1/items''" ?bad] h [of ?bad]
    by simp
  have 3: "openapi_request (requests_answering ?bad) ?kw fresh
      = (Inr PNone, fresh\<lparr>stdout := stdout fresh
           @ [''An error occurred: '' @ str_exn (Exn JSONDecodeError ''invalid JSON'')]\<rparr>)"
    using openapi_request_result [of "requests_answering ?bad" ?kw _ _ _ _ _ _ _ fresh
        "Exn JSONDecodeError ''invalid JSON''"] t
    by blast
  have m: "map_of [(''q'', PStr ''llm'')] ''__baseurl'' = None"
    by simp
  have 4: "fst (openapi_request (requests_answering ?ok) [(''q'', PStr ''llm'')] fresh) = Inr PNone"
    using openapi_request_result [of "requests_answering ?ok" "[(''q'', PStr ''llm'')]" _ _ _ _ _ _ _ fresh] m
    by blast
  show ?thesis
    using 1 2 3 4 by (simp add: fresh_def)
qed

end
